theory Spec2Isabelle
  imports Complex_Main "HOL-Library.Sublist"
begin

section \<open>JavaScript values\<close>

text \<open>
  The reducers of \<^verbatim>\<open>src/reducers/map-style-updaters.js\<close> are pure functions over plain
  JavaScript objects. An object used as a dictionary is an insertion-ordered association
  list of its own properties: \<open>map_of\<close> reads an own property, \<open>Object.keys\<close> lists the
  own keys, and spreading and writing are defined through these two, as the language
  defines them. A property read \<^verbatim>\<open>ob[k]\<close> also finds what a plain object inherits from
  \<open>Object.prototype\<close>; such reads are \<open>read_bool\<close> and \<open>read_style\<close> below. \<open>null\<close>
  and \<open>undefined\<close> are both \<open>None\<close>. A thrown \<open>TypeError\<close> (a property read on
  \<open>undefined\<close>) is the left summand of the result.
\<close>

datatype js_error = TypeError

type_synonym 'v obj = "(string \<times> 'v) list"

type_synonym number = real

definition Object_keys :: "'v obj \<Rightarrow> string list" where
  "Object_keys ob = map fst ob"

definition Object_values :: "'v obj \<Rightarrow> 'v list" where
  "Object_values ob = List.map_filter (map_of ob) (Object_keys ob)"

text \<open>\<^verbatim>\<open>{...ob, [k]: v}\<close>: an existing key keeps its place, a new key goes last.\<close>

fun set_prop :: "string \<Rightarrow> 'v \<Rightarrow> 'v obj \<Rightarrow> 'v obj" where
  "set_prop k v [] = [(k, v)]"
| "set_prop k v (p # ps) = (if fst p = k then (k, v) # ps else p # set_prop k v ps)"

text \<open>\<^verbatim>\<open>{...a, ...b}\<close>: every own key of \<open>b\<close>, in order, is read from \<open>b\<close> and written to the copy of \<open>a\<close>.\<close>

definition spread :: "'v obj \<Rightarrow> 'v obj \<Rightarrow> 'v obj" where
  "spread a b =
     fold (\<lambda>k accu. case map_of b k of None \<Rightarrow> accu | Some v \<Rightarrow> set_prop k v accu)
       (Object_keys b) a"

text \<open>A value used as a property key is converted to a string; \<open>undefined\<close> becomes \<^verbatim>\<open>"undefined"\<close>.\<close>

definition prop_key :: "string option \<Rightarrow> string" where
  "prop_key k = (case k of None \<Rightarrow> ''undefined'' | Some s \<Rightarrow> s)"

text \<open>Truthiness of a string-or-absent value: absent and the empty string are falsy.\<close>

definition truthy :: "string option \<Rightarrow> bool" where
  "truthy v = (case v of None \<Rightarrow> False | Some s \<Rightarrow> s \<noteq> [])"

text \<open>\<^verbatim>\<open>a || b\<close> on such values.\<close>

definition js_or :: "string option \<Rightarrow> string option \<Rightarrow> string option" where
  "js_or a b = (if truthy a then a else b)"

text \<open>
  The names that every plain object inherits from \<open>Object.prototype\<close>. Each of them reads
  a function, or the prototype itself for \<^verbatim>\<open>__proto__\<close>: a truthy value.
\<close>

definition Object_prototype_names :: "string list" where
  "Object_prototype_names =
     [''constructor'', ''__defineGetter__'', ''__defineSetter__'', ''hasOwnProperty'',
      ''__lookupGetter__'', ''__lookupSetter__'', ''isPrototypeOf'', ''propertyIsEnumerable'',
      ''toString'', ''valueOf'', ''__proto__'', ''toLocaleString'']"

definition inherited :: "string \<Rightarrow> bool" where
  "inherited k = (k \<in> set Object_prototype_names)"

text \<open>
  What a read of a visibility map gives: a boolean it holds, \<open>undefined\<close>, or a member
  of \<open>Object.prototype\<close>.
\<close>

datatype js_flag = Flag bool | Undefined | Member

definition read_bool :: "bool obj \<Rightarrow> string \<Rightarrow> js_flag" where
  "read_bool ob k =
     (case map_of ob k of
        Some v \<Rightarrow> Flag v
      | None \<Rightarrow> if inherited k then Member else Undefined)"

fun truthy_flag :: "js_flag \<Rightarrow> bool" where
  "truthy_flag (Flag v) = v"
| "truthy_flag Undefined = False"
| "truthy_flag Member = True"

text \<open>\<^verbatim>\<open>a && b\<close>: the left operand when it is falsy, the right operand otherwise.\<close>

definition js_and :: "js_flag \<Rightarrow> js_flag \<Rightarrow> js_flag" where
  "js_and a b = (if truthy_flag a then b else a)"

text \<open>
  The regular expression \<^verbatim>\<open>/(?=(dark|night))/\<close> of \<open>get3DBuildingColor\<close>: a lookahead
  tried at every position of the string, from the left, for one of the alternatives.
\<close>

fun lookahead_match :: "string list \<Rightarrow> string \<Rightarrow> bool" where
  "lookahead_match alts [] = list_ex (\<lambda>a. a = []) alts"
| "lookahead_match alts (c # cs) =
     (list_ex (\<lambda>a. prefix a (c # cs)) alts \<or> lookahead_match alts cs)"

section \<open>Data model\<close>

text \<open>
  A style document (the Mapbox style JSON) is read by this file through \<open>id\<close>, \<open>name\<close>
  and \<open>layers\<close>; a layer through \<open>id\<close> and \<open>paint\<close>. \<open>layout\<close> is the layer property
  the style editor rewrites.
\<close>

record layer =
  layer_id :: string
  paint :: "string obj option"
  layout :: "string obj option"

record style_doc =
  doc_id :: "string option"
  doc_name :: "string option"
  layers :: "layer list option"

text \<open>
  A document as a value: the plain object of the style JSON, or the persistent collection
  that \<open>Immutable.fromJS\<close> builds from it, with the same keys and values. The two are
  different values: an \<open>Immutable.Map\<close> is not deeply equal to the plain object it was
  built from, and \<open>toJS\<close> gives the plain content back.
\<close>

datatype doc_value = Plain style_doc | Immutable style_doc

definition fromJS :: "style_doc \<Rightarrow> doc_value" where
  "fromJS doc = Immutable doc"


text \<open>An entry of \<open>DEFAULT_LAYER_GROUPS\<close>.\<close>

record layer_group =
  slug :: string
  lg_filter :: "layer \<Rightarrow> bool"
  defaultVisibility :: bool

text \<open>
  A style definition: an entry of \<open>mapStyles\<close>, and also the staged \<open>inputStyle\<close>, which
  \<open>addCustomMapStyleUpdater\<close> stores into \<open>mapStyles\<close> as it is. \<open>error = None\<close> is the
  value \<open>false\<close> of the blank input style.
\<close>

record style_def =
  def_id :: "string option"
  label :: "string option"
  url :: "string option"
  icon :: "string option"
  style :: "style_doc option"
  layerGroups :: "layer_group list option"
  accessToken :: "string option"
  error :: "string option"
  isValid :: "bool option"
  custom :: "bool option"

text \<open>
  A read \<^verbatim>\<open>mapStyles[k]\<close>: the own entry, or a member of \<open>Object.prototype\<close>, which
  is truthy and has none of the fields of a style definition.
\<close>

definition no_fields :: style_def where
  "no_fields =
     \<lparr>def_id = None, label = None, url = None, icon = None, style = None,
      layerGroups = None, accessToken = None, error = None, isValid = None, custom = None\<rparr>"

definition read_style :: "style_def obj \<Rightarrow> string \<Rightarrow> style_def option" where
  "read_style ob k =
     (case map_of ob k of
        Some d \<Rightarrow> Some d
      | None \<Rightarrow> if inherited k then Some no_fields else None)"

record state =
  styleType :: "string option"
  visibleLayerGroups :: "bool obj"
  topLayerGroups :: "bool obj"
  mapStyles :: "style_def obj"
  mapboxApiAccessToken :: "string option"
  inputStyle :: style_def
  threeDBuildingColor :: "number list option"
  bottomMapStyle :: "doc_value option"
  topMapStyle :: "doc_value option"
  editable :: "nat option"

text \<open>What \<open>getMapStyles\<close> returns when the active style is loaded.\<close>

record derived =
  d_bottomMapStyle :: doc_value
  d_topMapStyle :: "doc_value option"
  d_editable :: nat
  d_threeDBuildingColor :: "number list"

text \<open>The payload of a config change: any of the four canonical fields.\<close>

record config =
  cfg_styleType :: "string option"
  cfg_visibleLayerGroups :: "bool obj option"
  cfg_topLayerGroups :: "bool obj option"
  cfg_mapStyles :: "style_def obj option"

text \<open>The colour object of \<^verbatim>\<open>d3-color\<close>.\<close>

record Rgb =
  rgb_r :: number
  rgb_g :: number
  rgb_b :: number

text \<open>
  What the file imports and this repository's sources under \<^verbatim>\<open>src/\<close> do not hold: the
  style editor utilities, the table of layer groups, the id generator and the colour
  library. They are parameters of every function below. \<open>generateHashId\<close> is the id the
  generator returns at this call.
\<close>

record env =
  getDefaultLayerGroupVisibility :: "style_def \<Rightarrow> bool obj"
  mergeLayerGroupVisibility :: "bool obj \<Rightarrow> bool obj \<Rightarrow> bool obj"
  editTopMapStyle :: "string option \<Rightarrow> style_def \<Rightarrow> js_flag obj \<Rightarrow> doc_value"
  editBottomMapStyle :: "string option \<Rightarrow> style_def \<Rightarrow> bool obj \<Rightarrow> doc_value"
  getStyleDownloadUrl :: "string option \<Rightarrow> string option \<Rightarrow> string"
  DEFAULT_LAYER_GROUPS :: "layer_group list"
  generateHashId :: string
  rgb :: "string \<Rightarrow> Rgb"
  brighter :: "number list \<Rightarrow> Rgb \<Rightarrow> Rgb"
  darker :: "number list \<Rightarrow> Rgb \<Rightarrow> Rgb"

section \<open>The derived map styles\<close>

definition DEFAULT_BLDG_COLOR :: string where
  "DEFAULT_BLDG_COLOR = ''#D1CEC7''"

text \<open>The local constants \<open>backgroundLayer\<close> and \<open>buildingColor\<close> of \<open>get3DBuildingColor\<close>.\<close>

definition backgroundLayer :: "style_doc \<Rightarrow> layer option" where
  "backgroundLayer doc =
     find (\<lambda>l. layer_id l = ''background'') (case layers doc of None \<Rightarrow> [] | Some ls \<Rightarrow> ls)"

definition buildingColor :: "style_doc \<Rightarrow> string" where
  "buildingColor doc =
     (case backgroundLayer doc of
        None \<Rightarrow> DEFAULT_BLDG_COLOR
      | Some l \<Rightarrow>
          (case paint l of
             None \<Rightarrow> DEFAULT_BLDG_COLOR
           | Some p \<Rightarrow>
               (case map_of p ''background-color'' of
                  None \<Rightarrow> DEFAULT_BLDG_COLOR
                | Some c \<Rightarrow> if c \<noteq> [] then c else DEFAULT_BLDG_COLOR)))"

definition get3DBuildingColor :: "env \<Rightarrow> style_def \<Rightarrow> js_error + number list" where
  "get3DBuildingColor e sd =
     (case style sd of
        None \<Rightarrow> Inl TypeError
      | Some doc \<Rightarrow>
          (case def_id sd of
             None \<Rightarrow> Inl TypeError
           | Some i \<Rightarrow>
               (let operation =
                      (if lookahead_match [''dark'', ''night''] i then brighter e else darker e);
                    rgbObj = operation [0.2] (rgb e (buildingColor doc))
                in Inr [rgb_r rgbObj, rgb_g rgbObj, rgb_b rgbObj])))"

definition getLayerGroupsFromStyle :: "env \<Rightarrow> style_doc \<Rightarrow> js_error + layer_group list" where
  "getLayerGroupsFromStyle e doc =
     (case DEFAULT_LAYER_GROUPS e of
        [] \<Rightarrow> Inr []
      | _ # _ \<Rightarrow>
          (case layers doc of
             None \<Rightarrow> Inl TypeError
           | Some ls \<Rightarrow>
               Inr (filter (\<lambda>lg. length (filter (lg_filter lg) ls) \<noteq> 0)
                      (DEFAULT_LAYER_GROUPS e))))"

text \<open>
  The local constant \<open>topLayers\<close> of \<open>getMapStyles\<close>: every key of \<open>topLayerGroups\<close>
  with \<^verbatim>\<open>topLayerGroups[key] && visibleLayerGroups[key]\<close>.
\<close>

definition topLayers :: "bool obj \<Rightarrow> bool obj \<Rightarrow> js_flag obj" where
  "topLayers tlg vlg =
     fold (\<lambda>key accu. set_prop key (js_and (read_bool tlg key) (read_bool vlg key)) accu)
       (Object_keys tlg) []"

definition hasTopLayer :: "state \<Rightarrow> bool" where
  "hasTopLayer s =
     (length (Object_keys (visibleLayerGroups s)) \<noteq> 0 \<and>
      list_ex (\<lambda>v. v) (Object_values (topLayerGroups s)))"

text \<open>\<open>getMapStyles\<close> reads four fields of its argument; \<open>None\<close> is the empty object it returns early.\<close>

definition getMapStyles :: "env \<Rightarrow> state \<Rightarrow> js_error + derived option" where
  "getMapStyles e s =
     (case read_style (mapStyles s) (prop_key (styleType s)) of
        None \<Rightarrow> Inr None
      | Some mapStyle \<Rightarrow>
          (case style mapStyle of
             None \<Rightarrow> Inr None
           | Some doc \<Rightarrow>
               (let n = length (Object_keys (visibleLayerGroups s));
                    bottomStyle =
                      (if n = 0 then fromJS doc
                       else editBottomMapStyle e (styleType s) mapStyle (visibleLayerGroups s));
                    topStyle =
                      (if hasTopLayer s
                       then Some (editTopMapStyle e (styleType s) mapStyle
                                    (topLayers (topLayerGroups s) (visibleLayerGroups s)))
                       else None)
                in case get3DBuildingColor e mapStyle of
                     Inl err \<Rightarrow> Inl err
                   | Inr c \<Rightarrow>
                       Inr (Some \<lparr>d_bottomMapStyle = bottomStyle, d_topMapStyle = topStyle,
                                  d_editable = n, d_threeDBuildingColor = c\<rparr>))))"

text \<open>\<^verbatim>\<open>{...s, ...getMapStyles(..)}\<close>: the empty object leaves every field as it was.\<close>

definition assign_derived :: "state \<Rightarrow> derived option \<Rightarrow> state" where
  "assign_derived s d =
     (case d of
        None \<Rightarrow> s
      | Some x \<Rightarrow>
          s\<lparr>bottomMapStyle := Some (d_bottomMapStyle x), topMapStyle := d_topMapStyle x,
            editable := Some (d_editable x),
            threeDBuildingColor := Some (d_threeDBuildingColor x)\<rparr>)"

text \<open>\<^verbatim>\<open>{...state, ...action.payload}\<close>.\<close>

definition assign_config :: "state \<Rightarrow> config \<Rightarrow> state" where
  "assign_config s p =
     s\<lparr>styleType := (case cfg_styleType p of None \<Rightarrow> styleType s | Some t \<Rightarrow> Some t),
       visibleLayerGroups :=
         (case cfg_visibleLayerGroups p of None \<Rightarrow> visibleLayerGroups s | Some v \<Rightarrow> v),
       topLayerGroups :=
         (case cfg_topLayerGroups p of None \<Rightarrow> topLayerGroups s | Some v \<Rightarrow> v),
       mapStyles := (case cfg_mapStyles p of None \<Rightarrow> mapStyles s | Some m \<Rightarrow> m)\<rparr>"

section \<open>Updaters\<close>

definition mapConfigChangeUpdater :: "env \<Rightarrow> state \<Rightarrow> config \<Rightarrow> js_error + state" where
  "mapConfigChangeUpdater e s payload =
     (let merged = assign_config s payload
      in case getMapStyles e merged of
           Inl err \<Rightarrow> Inl err
         | Inr d \<Rightarrow> Inr (assign_derived merged d))"

definition mapStyleChangeUpdater :: "env \<Rightarrow> state \<Rightarrow> string option \<Rightarrow> js_error + state" where
  "mapStyleChangeUpdater e s newType =
     (case read_style (mapStyles s) (prop_key newType) of
        None \<Rightarrow> Inr s
      | Some entry \<Rightarrow>
          (let defaultLGVisibility = getDefaultLayerGroupVisibility e entry;
               visible = mergeLayerGroupVisibility e defaultLGVisibility (visibleLayerGroups s);
               s' = s\<lparr>styleType := newType, visibleLayerGroups := visible\<rparr>
           in case getMapStyles e s' of
                Inl err \<Rightarrow> Inl err
              | Inr d \<Rightarrow> Inr (assign_derived s' d)))"

definition loadMapStylesUpdater :: "env \<Rightarrow> state \<Rightarrow> style_def obj \<Rightarrow> js_error + state" where
  "loadMapStylesUpdater e s newStyles =
     (let newState = s\<lparr>mapStyles := spread (mapStyles s) newStyles\<rparr>
      in if read_style newStyles (prop_key (styleType s)) \<noteq> None
         then mapStyleChangeUpdater e newState (styleType s)
         else Inr newState)"

text \<open>
  \<open>receiveMapConfigUpdater\<close> returns the new state, or \<^verbatim>\<open>withTask(newState, [Task.all(..)])\<close>:
  the second component is the list of requests given to \<open>LOAD_MAP_STYLE_TASK\<close> inside
  the one \<open>Task.all\<close>, or \<open>None\<close> when no task is attached.
\<close>

record load_request =
  req_id :: "string option"
  req_url :: string

definition load_request_of :: "env \<Rightarrow> state \<Rightarrow> style_def \<Rightarrow> load_request" where
  "load_request_of e s d =
     \<lparr>req_id = def_id d,
      req_url = getStyleDownloadUrl e (url d) (js_or (accessToken d) (mapboxApiAccessToken s))\<rparr>"

definition receiveMapConfigUpdater ::
  "env \<Rightarrow> state \<Rightarrow> config option \<Rightarrow> js_error + state \<times> load_request list option" where
  "receiveMapConfigUpdater e s mapStyle =
     (case mapStyle of
        None \<Rightarrow> Inr (s, None)
      | Some cfg \<Rightarrow>
          (let loadMapStyleTasks =
                 (case cfg_mapStyles cfg of
                    None \<Rightarrow> None
                  | Some ms \<Rightarrow> Some (map (load_request_of e s) (Object_values ms)))
           in case mapConfigChangeUpdater e s cfg of
                Inl err \<Rightarrow> Inl err
              | Inr newState \<Rightarrow> Inr (newState, loadMapStyleTasks)))"

text \<open>
  The success branch of the task: the payload of \<open>loadMapStyles\<close> built from the
  downloaded documents. Spreading an absent saved entry, or a member of
  \<open>Object.prototype\<close>, adds no field.
\<close>

record load_result =
  res_id :: "string option"
  res_style :: style_doc

fun loadMapStyleTasks_success ::
  "env \<Rightarrow> style_def obj \<Rightarrow> load_result list \<Rightarrow> style_def obj \<Rightarrow> js_error + style_def obj" where
  "loadMapStyleTasks_success e saved [] accu = Inr accu"
| "loadMapStyleTasks_success e saved (res # rest) accu =
     (case getLayerGroupsFromStyle e (res_style res) of
        Inl err \<Rightarrow> Inl err
      | Inr lgs \<Rightarrow>
          loadMapStyleTasks_success e saved rest
            (set_prop (prop_key (res_id res))
               ((case read_style saved (prop_key (res_id res)) of
                   None \<Rightarrow> no_fields
                 | Some d \<Rightarrow> d)\<lparr>layerGroups := Some lgs, style := Some (res_style res)\<rparr>)
               accu))"

text \<open>
  The payload of \<open>loadCustomMapStyleUpdater\<close>: \<open>icon\<close>, \<open>style\<close> and \<open>error\<close>, where
  \<open>p_error = None\<close> is \<open>undefined\<close> and \<open>Some v\<close> the value to store.
\<close>

record custom_payload =
  p_icon :: "string option"
  p_style :: "style_doc option"
  p_error :: "string option option"

definition loadCustomMapStyleUpdater :: "env \<Rightarrow> state \<Rightarrow> custom_payload \<Rightarrow> js_error + state" where
  "loadCustomMapStyleUpdater e s payload =
     (case (case p_style payload of
              None \<Rightarrow> Inr (inputStyle s)
            | Some doc \<Rightarrow>
                (case getLayerGroupsFromStyle e doc of
                   Inl err \<Rightarrow> Inl err
                 | Inr lgs \<Rightarrow>
                     Inr ((inputStyle s)
                          \<lparr>def_id := js_or (doc_id doc) (Some (generateHashId e)),
                           style := Some doc,
                           label := doc_name doc,
                           layerGroups := Some lgs\<rparr>))) of
        Inl err \<Rightarrow> Inl err
      | Inr withStyle \<Rightarrow>
          (let withIcon = (if truthy (p_icon payload) then withStyle\<lparr>icon := p_icon payload\<rparr>
                           else withStyle);
               withError = (case p_error payload of
                              None \<Rightarrow> withIcon
                            | Some err \<Rightarrow> withIcon\<lparr>error := err\<rparr>)
           in Inr (s\<lparr>inputStyle := withError\<rparr>)))"

definition getInitialInputStyle :: style_def where
  "getInitialInputStyle =
     \<lparr>def_id = None, label = None, url = None, icon = None, style = None,
      layerGroups = None, accessToken = None, error = None, isValid = Some False,
      custom = Some True\<rparr>"

definition addCustomMapStyleUpdater :: "env \<Rightarrow> state \<Rightarrow> js_error + state" where
  "addCustomMapStyleUpdater e s =
     (let styleId = def_id (inputStyle s);
          newState = s\<lparr>mapStyles := set_prop (prop_key styleId) (inputStyle s) (mapStyles s),
                       inputStyle := getInitialInputStyle\<rparr>
      in mapStyleChangeUpdater e newState styleId)"

section \<open>An instance of the imported utilities\<close>

text \<open>
  The theorems below hold for every \<open>env\<close>. To run the updaters on examples, the
  utilities are given one instance here.
\<close>

text \<open>
  Modelled from the spec: \<open>DEFAULT_LAYER_GROUPS\<close> of \<^verbatim>\<open>constants/default-settings\<close>, a
  fixed list of named groups, each with a predicate over a layer; three of the names the
  data model lists, each matching the layers whose id starts with the name.
\<close>

definition layer_group_named :: "string \<Rightarrow> layer_group" where
  "layer_group_named g =
     \<lparr>slug = g, lg_filter = (\<lambda>l. prefix g (layer_id l)), defaultVisibility = True\<rparr>"

definition model_layer_groups :: "layer_group list" where
  "model_layer_groups = map layer_group_named [''label'', ''road'', ''water'']"

text \<open>
  Modelled from the spec: \<open>getDefaultLayerGroupVisibility\<close> of the style editor
  utilities, the default visibility of a style (4.4): each of its layer groups with the
  group's default.
\<close>

definition model_getDefaultLayerGroupVisibility :: "style_def \<Rightarrow> bool obj" where
  "model_getDefaultLayerGroupVisibility d =
     fold (\<lambda>lg accu. set_prop (slug lg) (defaultVisibility lg) accu)
       (case layerGroups d of None \<Rightarrow> [] | Some lgs \<Rightarrow> lgs) []"

text \<open>
  Modelled from the spec: \<open>mergeLayerGroupVisibility\<close> of the style editor utilities,
  which merges the previously customized group overrides forward (4.4): a group of the
  default visibility that the current visibility also names takes the current value.
\<close>

definition model_mergeLayerGroupVisibility :: "bool obj \<Rightarrow> bool obj \<Rightarrow> bool obj" where
  "model_mergeLayerGroupVisibility defaultLG currentLG =
     fold (\<lambda>key accu.
             case map_of defaultLG key of
               None \<Rightarrow> accu
             | Some _ \<Rightarrow> (case map_of currentLG key of
                            None \<Rightarrow> accu
                          | Some v \<Rightarrow> set_prop key v accu))
       (Object_keys currentLG) defaultLG"

text \<open>
  Modelled from the spec: the Style Editor (4.2), \<open>editBottomMapStyle\<close> and
  \<open>editTopMapStyle\<close> of the style editor utilities. A layer belongs to the first group
  of the style whose predicate it satisfies. Every layer that belongs to a group gets its
  visibility set as the visibility map says for the group; the other layers, the order of
  the layers and the other fields are kept. The result is a persistent collection, as
  the one \<open>getMapStyles\<close> builds itself when nothing is customized. A layer is hidden
  when its layout says so.
\<close>

definition layer_group_of :: "layer_group list \<Rightarrow> layer \<Rightarrow> layer_group option" where
  "layer_group_of groups l = find (\<lambda>lg. lg_filter lg l) groups"


definition visible_in :: "js_flag obj \<Rightarrow> string \<Rightarrow> bool" where
  "visible_in ob g = (case map_of ob g of None \<Rightarrow> False | Some v \<Rightarrow> truthy_flag v)"

definition set_visibility :: "bool \<Rightarrow> layer \<Rightarrow> layer" where
  "set_visibility v l =
     l\<lparr>layout := Some (set_prop ''visibility'' (if v then ''visible'' else ''none'')
                         (case layout l of None \<Rightarrow> [] | Some ps \<Rightarrow> ps))\<rparr>"

definition edit_layer :: "layer_group list \<Rightarrow> (string \<Rightarrow> bool) \<Rightarrow> layer \<Rightarrow> layer" where
  "edit_layer groups visible l =
     (case layer_group_of groups l of
        None \<Rightarrow> l
      | Some lg \<Rightarrow> set_visibility (visible (slug lg)) l)"

definition edit_style :: "style_def \<Rightarrow> (string \<Rightarrow> bool) \<Rightarrow> style_doc" where
  "edit_style mapStyle visible =
     (case style mapStyle of
        None \<Rightarrow> \<lparr>doc_id = None, doc_name = None, layers = None\<rparr>
      | Some doc \<Rightarrow>
          doc\<lparr>layers :=
                map_option
                  (map (edit_layer (case layerGroups mapStyle of None \<Rightarrow> [] | Some lgs \<Rightarrow> lgs)
                          visible))
                  (layers doc)\<rparr>)"

definition model_editBottomMapStyle :: "string option \<Rightarrow> style_def \<Rightarrow> bool obj \<Rightarrow> doc_value" where
  "model_editBottomMapStyle i mapStyle visible =
     Immutable (edit_style mapStyle (\<lambda>g. map_of visible g = Some True))"

definition model_editTopMapStyle ::
  "string option \<Rightarrow> style_def \<Rightarrow> js_flag obj \<Rightarrow> doc_value" where
  "model_editTopMapStyle i mapStyle visible =
     Immutable (edit_style mapStyle (visible_in visible))"

text \<open>
  Modelled from the spec: \<open>getStyleDownloadUrl\<close> of the style editor utilities, the url
  with the access token as a query parameter (4.5).
\<close>

definition model_getStyleDownloadUrl :: "string option \<Rightarrow> string option \<Rightarrow> string" where
  "model_getStyleDownloadUrl u token =
     (case u of None \<Rightarrow> [] | Some a \<Rightarrow> a) @
     (case token of None \<Rightarrow> [] | Some k \<Rightarrow> ''?access_token='' @ k)"

text \<open>
  The colour library \<^verbatim>\<open>d3-color\<close> is not part of the repository. The instance follows
  it: \<open>rgb\<close> reads a hex colour (three colours here), \<open>brighter(k)\<close> multiplies every
  channel by \<open>(1 / 0.7)\<^sup>k\<close> and \<open>darker(k)\<close> by \<open>0.7\<^sup>k\<close>, with no rounding and no
  clamping; a one-element array as \<open>k\<close> counts as its element.
\<close>

definition model_rgb :: "string \<Rightarrow> Rgb" where
  "model_rgb c =
     (if c = ''#D1CEC7'' then \<lparr>rgb_r = 209, rgb_g = 206, rgb_b = 199\<rparr>
      else if c = ''#101820'' then \<lparr>rgb_r = 16, rgb_g = 24, rgb_b = 32\<rparr>
      else if c = ''#ffffff'' then \<lparr>rgb_r = 255, rgb_g = 255, rgb_b = 255\<rparr>
      else \<lparr>rgb_r = 0, rgb_g = 0, rgb_b = 0\<rparr>)"

definition scale_rgb :: "number \<Rightarrow> Rgb \<Rightarrow> Rgb" where
  "scale_rgb k c = \<lparr>rgb_r = rgb_r c * k, rgb_g = rgb_g c * k, rgb_b = rgb_b c * k\<rparr>"

definition model_brighter :: "number list \<Rightarrow> Rgb \<Rightarrow> Rgb" where
  "model_brighter ks c = scale_rgb ((10 / 7) powr sum_list ks) c"

definition model_darker :: "number list \<Rightarrow> Rgb \<Rightarrow> Rgb" where
  "model_darker ks c = scale_rgb ((7 / 10) powr sum_list ks) c"

definition model_env :: env where
  "model_env =
     \<lparr>getDefaultLayerGroupVisibility = model_getDefaultLayerGroupVisibility,
      mergeLayerGroupVisibility = model_mergeLayerGroupVisibility,
      editTopMapStyle = model_editTopMapStyle,
      editBottomMapStyle = model_editBottomMapStyle,
      getStyleDownloadUrl = model_getStyleDownloadUrl,
      DEFAULT_LAYER_GROUPS = model_layer_groups,
      generateHashId = ''a1b2c3'',
      rgb = model_rgb,
      brighter = model_brighter,
      darker = model_darker\<rparr>"

section \<open>Example states\<close>

definition mk_layer :: "string \<Rightarrow> layer" where
  "mk_layer i = \<lparr>layer_id = i, paint = None, layout = None\<rparr>"

definition light_doc :: style_doc where
  "light_doc =
     \<lparr>doc_id = Some ''light'', doc_name = Some ''Light'',
      layers = Some [mk_layer ''background'', mk_layer ''road-major'', mk_layer ''label-city'']\<rparr>"

definition dark_doc :: style_doc where
  "dark_doc =
     \<lparr>doc_id = Some ''dark'', doc_name = Some ''Dark'',
      layers = Some [mk_layer ''road-major'', mk_layer ''label-city'']\<rparr>"

definition preset :: "string \<Rightarrow> style_doc option \<Rightarrow> style_def" where
  "preset i doc =
     \<lparr>def_id = Some i, label = Some i, url = Some (''mapbox://styles/'' @ i), icon = None,
      style = doc, layerGroups = Some model_layer_groups, accessToken = None, error = None,
      isValid = None, custom = None\<rparr>"

text \<open>
  The light style is loaded and active with nothing customized; the dark style is
  registered and not downloaded yet.
\<close>

definition light_state :: state where
  "light_state =
     \<lparr>styleType = Some ''light'', visibleLayerGroups = [], topLayerGroups = [],
      mapStyles = [(''light'', preset ''light'' (Some light_doc)),
                   (''dark'', preset ''dark'' None)],
      mapboxApiAccessToken = Some ''pk.default'', inputStyle = getInitialInputStyle,
      threeDBuildingColor =
        Some [209 * (7 / 10) powr 0.2, 206 * (7 / 10) powr 0.2, 199 * (7 / 10) powr 0.2],
      bottomMapStyle = Some (Immutable light_doc), topMapStyle = None, editable = Some 0\<rparr>"

text \<open>The light state after the dark style, not downloaded yet, has been selected.\<close>

definition dark_pending_state :: state where
  "dark_pending_state =
     light_state\<lparr>styleType := Some ''dark'',
       visibleLayerGroups := [(''label'', True), (''road'', True), (''water'', True)]\<rparr>"


text \<open>A layer as the style editor of the instance leaves it.\<close>

definition with_visibility :: "string \<Rightarrow> bool \<Rightarrow> layer" where
  "with_visibility i v =
     \<lparr>layer_id = i, paint = None,
      layout = Some [(''visibility'', if v then ''visible'' else ''none'')]\<rparr>"

text \<open>
  The derived fields of a state \<open>s'\<close>, against what \<open>getMapStyles\<close> computes from
  \<open>s'\<close> itself: equal to its output when the active style is loaded, and the ones of the
  state \<open>s\<close> before the update when it is not.
\<close>

definition same_derived :: "state \<Rightarrow> state \<Rightarrow> bool" where
  "same_derived s s' =
     (bottomMapStyle s' = bottomMapStyle s \<and> topMapStyle s' = topMapStyle s \<and>
      threeDBuildingColor s' = threeDBuildingColor s)"

definition derived_from :: "derived \<Rightarrow> state \<Rightarrow> bool" where
  "derived_from d s' =
     (bottomMapStyle s' = Some (d_bottomMapStyle d) \<and> topMapStyle s' = d_topMapStyle d \<and>
      threeDBuildingColor s' = Some (d_threeDBuildingColor d))"

definition derived_current :: "env \<Rightarrow> state \<Rightarrow> state \<Rightarrow> bool" where
  "derived_current e s s' =
     (case getMapStyles e s' of
        Inl err \<Rightarrow> False
      | Inr None \<Rightarrow> same_derived s s'
      | Inr (Some d) \<Rightarrow> derived_from d s')"

text \<open>A config change that hides the roads.\<close>

definition roads_off :: config where
  "roads_off =
     \<lparr>cfg_styleType = None, cfg_visibleLayerGroups = Some [(''road'', False)],
      cfg_topLayerGroups = None, cfg_mapStyles = None\<rparr>"

text \<open>A custom style, downloaded and staged in \<open>inputStyle\<close>.\<close>

definition custom_style_1 :: style_def where
  "custom_style_1 =
     \<lparr>def_id = Some ''custom_style_1'', label = Some ''Custom'',
      url = Some ''mapbox://styles/me/custom'', icon = None, style = Some dark_doc,
      layerGroups = Some model_layer_groups, accessToken = Some ''pk.mine'', error = None,
      isValid = Some True, custom = Some True\<rparr>"

definition input_state :: state where
  "input_state = light_state\<lparr>inputStyle := custom_style_1\<rparr>"

text \<open>The dark style is active and not downloaded yet; the labels were switched off before.\<close>

definition label_off_state :: state where
  "label_off_state =
     \<lparr>styleType = Some ''dark'', visibleLayerGroups = [(''label'', False)], topLayerGroups = [],
      mapStyles = [(''dark'', preset ''dark'' None)],
      mapboxApiAccessToken = Some ''pk.default'', inputStyle = getInitialInputStyle,
      threeDBuildingColor = None, bottomMapStyle = None, topMapStyle = None, editable = None\<rparr>"

text \<open>A saved config with a loaded style and a custom style saved without its document.\<close>

definition saved_config :: config where
  "saved_config =
     \<lparr>cfg_styleType = Some ''light'', cfg_visibleLayerGroups = None, cfg_topLayerGroups = None,
      cfg_mapStyles = Some [(''light'', preset ''light'' (Some light_doc)),
                            (''custom_style_1'', custom_style_1\<lparr>style := None\<rparr>)]\<rparr>"

text \<open>A style document without \<open>layers\<close>.\<close>

definition no_layers_doc :: style_doc where
  "no_layers_doc = \<lparr>doc_id = Some ''broken'', doc_name = Some ''Broken'', layers = None\<rparr>"

text \<open>
  A style whose id holds \<^verbatim>\<open>night\<close>, with two layers of id \<^verbatim>\<open>background\<close> after another
  layer.
\<close>

definition background_layer :: "string \<Rightarrow> layer" where
  "background_layer c =
     \<lparr>layer_id = ''background'', paint = Some [(''background-color'', c)], layout = None\<rparr>"

definition night_doc :: style_doc where
  "night_doc =
     \<lparr>doc_id = None, doc_name = None,
      layers = Some [mk_layer ''land'', background_layer ''#101820'',
                     background_layer ''#ffffff'']\<rparr>"

definition night_def :: style_def where
  "night_def = preset ''tonight-1'' (Some night_doc)"

text \<open>A style with a dark id and a white background.\<close>

definition white_dark_def :: style_def where
  "white_dark_def =
     preset ''dark-on-white''
       (Some \<lparr>doc_id = None, doc_name = None, layers = Some [background_layer ''#ffffff'']\<rparr>)"

section \<open>Lemmas on objects and on the derived fields\<close>

lemmas model_defs =
  model_env_def model_getDefaultLayerGroupVisibility_def model_mergeLayerGroupVisibility_def
  model_layer_groups_def layer_group_named_def model_editBottomMapStyle_def
  model_editTopMapStyle_def edit_style_def edit_layer_def set_visibility_def
  layer_group_of_def visible_in_def
  model_getStyleDownloadUrl_def model_rgb_def model_brighter_def model_darker_def
  scale_rgb_def

lemmas example_defs = light_state_def preset_def light_doc_def dark_doc_def mk_layer_def
  getInitialInputStyle_def with_visibility_def

lemmas read_defs = read_style_def read_bool_def inherited_def Object_prototype_names_def
  prop_key_def

lemma map_of_set_prop: "map_of (set_prop k v ob) = (map_of ob)(k \<mapsto> v)"
  by (induction ob) (auto simp: fun_eq_iff)

lemma map_of_fold_write:
  "map_of (fold (\<lambda>k accu. case f k of None \<Rightarrow> accu | Some v \<Rightarrow> set_prop k v accu) ks a) x =
     (if x \<in> set ks then (case f x of None \<Rightarrow> map_of a x | Some v \<Rightarrow> Some v) else map_of a x)"
  by (induction ks arbitrary: a) (auto simp: map_of_set_prop split: option.splits)

lemma map_of_spread:
  "map_of (spread a b) k = (case map_of b k of None \<Rightarrow> map_of a k | Some v \<Rightarrow> Some v)"
proof (cases "k \<in> fst ` set b")
  case True
  then show ?thesis by (simp add: spread_def Object_keys_def map_of_fold_write)
next
  case False
  then have "map_of b k = None" by (simp add: map_of_eq_None_iff)
  with False show ?thesis by (simp add: spread_def Object_keys_def map_of_fold_write)
qed

lemma read_style_own: "map_of ob k = Some d \<Longrightarrow> read_style ob k = Some d"
  by (simp add: read_style_def)

lemma read_style_None:
  "read_style ob k = None \<longleftrightarrow> map_of ob k = None \<and> \<not> inherited k"
  by (simp add: read_style_def split: option.splits)

lemma getMapStyles_assign_derived: "getMapStyles e (assign_derived s d) = getMapStyles e s"
  by (cases d)
    (auto simp: assign_derived_def getMapStyles_def hasTopLayer_def Let_def
          split: option.splits sum.splits)

section \<open>Changing the style to one that is not loaded\<close>

text \<open>
  Claim C1, as the code has it. \<open>mapStyleChangeUpdater\<close> returns the state unchanged when
  the read \<^verbatim>\<open>mapStyles[newId]\<close> finds nothing: \<open>mapStyles\<close> has no entry for the new id,
  and the id is not a name that every object inherits from \<open>Object.prototype\<close>. When the
  read finds a value without a loaded \<open>style\<close>, an entry that is not downloaded or an
  inherited member such as \<^verbatim>\<open>constructor\<close>, the updater goes on: the new id becomes
  \<open>styleType\<close>, \<open>visibleLayerGroups\<close> becomes the default visibility of the value merged
  with the current one, and every other field, the derived ones too, stays as it was.
\<close>

theorem mapStyleChangeUpdater_unresolved:
  "(read_style (mapStyles s) (prop_key newId) = None \<longrightarrow>
      mapStyleChangeUpdater e s newId = Inr s) \<and>
   (read_style (mapStyles s) (prop_key newId) = None \<longleftrightarrow>
      map_of (mapStyles s) (prop_key newId) = None \<and> \<not> inherited (prop_key newId)) \<and>
   (map_of (mapStyles s) (prop_key newId) = None \<and> inherited (prop_key newId) \<longrightarrow>
      read_style (mapStyles s) (prop_key newId) = Some no_fields \<and> style no_fields = None) \<and>
   (\<forall>entry. map_of (mapStyles s) (prop_key newId) = Some entry \<longrightarrow>
      read_style (mapStyles s) (prop_key newId) = Some entry) \<and>
   (\<forall>entry. read_style (mapStyles s) (prop_key newId) = Some entry \<and> style entry = None \<longrightarrow>
      mapStyleChangeUpdater e s newId =
        Inr (s\<lparr>styleType := newId,
               visibleLayerGroups :=
                 mergeLayerGroupVisibility e (getDefaultLayerGroupVisibility e entry)
                   (visibleLayerGroups s)\<rparr>))"
proof -
  have "style no_fields = None"
    by (simp add: no_fields_def)
  then show ?thesis
    by (auto simp: mapStyleChangeUpdater_def getMapStyles_def assign_derived_def Let_def
        read_style_None read_style_own)
      (simp_all add: read_style_def)
qed

theorem mapStyleChangeUpdater_unresolved_witness:
  "read_style (mapStyles light_state) (prop_key (Some ''night'')) = None \<and>
   mapStyleChangeUpdater model_env light_state (Some ''night'') = Inr light_state \<and>
   map_of (mapStyles light_state) (prop_key (Some ''dark'')) = Some (preset ''dark'' None) \<and>
   read_style (mapStyles light_state) (prop_key (Some ''dark'')) = Some (preset ''dark'' None) \<and>
   style (preset ''dark'' None) = None \<and>
   mapStyleChangeUpdater model_env light_state (Some ''dark'') =
     Inr (light_state\<lparr>styleType := Some ''dark'',
            visibleLayerGroups :=
              mergeLayerGroupVisibility model_env
                (getDefaultLayerGroupVisibility model_env (preset ''dark'' None))
                (visibleLayerGroups light_state)\<rparr>) \<and>
   map_of (mapStyles light_state) (prop_key (Some ''constructor'')) = None \<and>
   inherited (prop_key (Some ''constructor'')) \<and>
   read_style (mapStyles light_state) (prop_key (Some ''constructor'')) = Some no_fields \<and>
   mapStyleChangeUpdater model_env light_state (Some ''constructor'') =
     Inr (light_state\<lparr>styleType := Some ''constructor'',
            visibleLayerGroups :=
              mergeLayerGroupVisibility model_env
                (getDefaultLayerGroupVisibility model_env no_fields)
                (visibleLayerGroups light_state)\<rparr>)"
proof -
  have a: "read_style (mapStyles light_state) (prop_key (Some ''night'')) = None"
    by (simp add: light_state_def read_defs)
  have b: "map_of (mapStyles light_state) (prop_key (Some ''dark'')) = Some (preset ''dark'' None)"
    by (simp add: light_state_def prop_key_def)
  have c: "style (preset ''dark'' None) = None"
    by (simp add: preset_def)
  have d: "map_of (mapStyles light_state) (prop_key (Some ''constructor'')) = None"
    "inherited (prop_key (Some ''constructor''))"
    by (simp_all add: light_state_def read_defs)
  note n = mapStyleChangeUpdater_unresolved [of light_state "Some ''night''" model_env]
  note k = mapStyleChangeUpdater_unresolved [of light_state "Some ''dark''" model_env]
  note p = mapStyleChangeUpdater_unresolved [of light_state "Some ''constructor''" model_env]
  from n a have 1: "mapStyleChangeUpdater model_env light_state (Some ''night'') = Inr light_state"
    by blast
  from k b have 2: "read_style (mapStyles light_state) (prop_key (Some ''dark'')) =
      Some (preset ''dark'' None)"
    by blast
  from k 2 c have 3: "mapStyleChangeUpdater model_env light_state (Some ''dark'') =
     Inr (light_state\<lparr>styleType := Some ''dark'',
            visibleLayerGroups :=
              mergeLayerGroupVisibility model_env
                (getDefaultLayerGroupVisibility model_env (preset ''dark'' None))
                (visibleLayerGroups light_state)\<rparr>)"
    by blast
  from p d have 4: "read_style (mapStyles light_state) (prop_key (Some ''constructor'')) =
      Some no_fields" and 5: "style no_fields = None"
    by blast+
  from p 4 5 have 6: "mapStyleChangeUpdater model_env light_state (Some ''constructor'') =
     Inr (light_state\<lparr>styleType := Some ''constructor'',
            visibleLayerGroups :=
              mergeLayerGroupVisibility model_env
                (getDefaultLayerGroupVisibility model_env no_fields)
                (visibleLayerGroups light_state)\<rparr>)"
    by blast
  from a b c d 1 2 3 4 6 show ?thesis by blast
qed

text \<open>
  Claim C1 as stated asks for the unchanged state whenever the entry is absent, and also
  when it is present without its \<open>style\<close>. In the example the dark entry is present without
  its \<open>style\<close>, and selecting it changes \<open>styleType\<close> from light to dark; and
  \<open>mapStyles\<close> has no entry named \<^verbatim>\<open>constructor\<close>, and selecting that id changes
  \<open>styleType\<close> as well.
\<close>

theorem mapStyleChangeUpdater_unresolved_counterexample:
  "map_of (mapStyles light_state) (prop_key (Some ''dark'')) = Some (preset ''dark'' None) \<and>
   style (preset ''dark'' None) = None \<and>
   styleType light_state = Some ''light'' \<and>
   map_sum id styleType (mapStyleChangeUpdater model_env light_state (Some ''dark'')) =
     Inr (Some ''dark'') \<and>
   mapStyleChangeUpdater model_env light_state (Some ''dark'') \<noteq> Inr light_state \<and>
   map_of (mapStyles light_state) (prop_key (Some ''constructor'')) = None \<and>
   map_sum id styleType (mapStyleChangeUpdater model_env light_state (Some ''constructor'')) =
     Inr (Some ''constructor'') \<and>
   mapStyleChangeUpdater model_env light_state (Some ''constructor'') \<noteq> Inr light_state"
  by (simp add: mapStyleChangeUpdater_def getMapStyles_def assign_derived_def Let_def
      Object_keys_def no_fields_def read_defs model_defs example_defs)

section \<open>The top map is masked by the bottom map\<close>




lemma list_ex_map_filter:
  "list_ex (\<lambda>v. v) (List.map_filter f xs) \<longleftrightarrow> (\<exists>x \<in> set xs. f x = Some True)"
  by (induction xs) (auto split: option.splits)

lemma some_Object_values: "list_ex (\<lambda>v. v) (Object_values ob) \<longleftrightarrow> (\<exists>g. map_of ob g = Some True)"
proof -
  have "(\<exists>x \<in> set (map fst ob). map_of ob x = Some True) \<longleftrightarrow> (\<exists>g. map_of ob g = Some True)"
    by (metis domI dom_map_of_conv_image_fst set_map)
  then show ?thesis
    by (simp only: Object_values_def Object_keys_def list_ex_map_filter)
qed

lemma getMapStyles_resolved:
  assumes "read_style (mapStyles s) (prop_key (styleType s)) = Some ms"
    and "style ms = Some doc" and "def_id ms = Some i"
  shows "\<exists>c. get3DBuildingColor e ms = Inr c \<and>
     getMapStyles e s =
       Inr (Some \<lparr>d_bottomMapStyle =
                    (if visibleLayerGroups s = [] then fromJS doc
                     else editBottomMapStyle e (styleType s) ms (visibleLayerGroups s)),
                  d_topMapStyle =
                    (if visibleLayerGroups s \<noteq> [] \<and> (\<exists>g. map_of (topLayerGroups s) g = Some True)
                     then Some (editTopMapStyle e (styleType s) ms
                                  (topLayers (topLayerGroups s) (visibleLayerGroups s)))
                     else None),
                  d_editable = length (visibleLayerGroups s),
                  d_threeDBuildingColor = c\<rparr>)"
  using assms
  by (simp add: getMapStyles_def get3DBuildingColor_def hasTopLayer_def some_Object_values
      Object_keys_def Let_def)








section \<open>The derived fields after an update\<close>

lemma derived_current_assign:
  "getMapStyles e m = Inr d \<Longrightarrow> same_derived s m \<Longrightarrow> derived_current e s (assign_derived m d)"
  by (cases d)
    (simp_all add: derived_current_def getMapStyles_assign_derived,
     simp_all add: assign_derived_def derived_from_def)

text \<open>
  Claim C3, as the code has it. After \<open>mapConfigChangeUpdater\<close>, and after
  \<open>mapStyleChangeUpdater\<close> for an id that \<open>mapStyles\<close> holds, \<open>bottomMapStyle\<close>,
  \<open>topMapStyle\<close> and \<open>threeDBuildingColor\<close> of the new state are what \<open>getMapStyles\<close>
  computes from the new state, whenever its active style is loaded. When it is not
  loaded, the three fields keep the values they had before the update.
\<close>

theorem derived_fields_recomputed:
  "(\<forall>s'. mapConfigChangeUpdater e s p = Inr s' \<longrightarrow> derived_current e s s') \<and>
   (\<forall>s' entry. map_of (mapStyles s) (prop_key t) = Some entry \<and>
        mapStyleChangeUpdater e s t = Inr s' \<longrightarrow> derived_current e s s')"
proof (intro conjI allI impI)
  fix s'
  assume "mapConfigChangeUpdater e s p = Inr s'"
  then obtain d where "getMapStyles e (assign_config s p) = Inr d"
    and "s' = assign_derived (assign_config s p) d"
    by (auto simp: mapConfigChangeUpdater_def Let_def split: sum.splits)
  moreover have "same_derived s (assign_config s p)"
    by (simp add: same_derived_def assign_config_def)
  ultimately show "derived_current e s s'"
    by (simp add: derived_current_assign)
next
  fix s' entry
  let ?m = "s\<lparr>styleType := t,
                visibleLayerGroups :=
                  mergeLayerGroupVisibility e (getDefaultLayerGroupVisibility e entry)
                    (visibleLayerGroups s)\<rparr>"
  assume h: "map_of (mapStyles s) (prop_key t) = Some entry \<and> mapStyleChangeUpdater e s t = Inr s'"
  then have "read_style (mapStyles s) (prop_key t) = Some entry"
    by (simp add: read_style_own)
  with h obtain d where "getMapStyles e ?m = Inr d" and "s' = assign_derived ?m d"
    by (auto simp: mapStyleChangeUpdater_def Let_def split: sum.splits)
  moreover have "same_derived s ?m"
    by (simp add: same_derived_def)
  ultimately show "derived_current e s s'"
    by (simp add: derived_current_assign)
qed

text \<open>Two updates of the example state, the light style being loaded.\<close>

lemma light_roads_off:
  "mapConfigChangeUpdater model_env light_state roads_off =
     Inr (light_state\<lparr>visibleLayerGroups := [(''road'', False)],
            bottomMapStyle := Some (Immutable (light_doc\<lparr>layers :=
              Some [mk_layer ''background'', with_visibility ''road-major'' False,
                    with_visibility ''label-city'' False]\<rparr>)),
            editable := Some 1\<rparr>)"
  by (simp add: mapConfigChangeUpdater_def assign_config_def getMapStyles_def
      get3DBuildingColor_def hasTopLayer_def assign_derived_def buildingColor_def
      backgroundLayer_def DEFAULT_BLDG_COLOR_def
      Object_values_def Object_keys_def read_defs Let_def model_defs example_defs
      roads_off_def)

lemma light_reselected:
  "mapStyleChangeUpdater model_env light_state (Some ''light'') =
     Inr (light_state\<lparr>visibleLayerGroups := [(''label'', True), (''road'', True), (''water'', True)],
            bottomMapStyle := Some (Immutable (light_doc\<lparr>layers :=
              Some [mk_layer ''background'', with_visibility ''road-major'' True,
                    with_visibility ''label-city'' True]\<rparr>)),
            editable := Some 3\<rparr>)"
  by (simp add: mapStyleChangeUpdater_def getMapStyles_def
      get3DBuildingColor_def hasTopLayer_def assign_derived_def buildingColor_def
      backgroundLayer_def DEFAULT_BLDG_COLOR_def
      Object_values_def Object_keys_def read_defs Let_def model_defs example_defs)

theorem derived_fields_recomputed_witness:
  "mapConfigChangeUpdater model_env light_state roads_off =
     Inr (light_state\<lparr>visibleLayerGroups := [(''road'', False)],
            bottomMapStyle := Some (Immutable (light_doc\<lparr>layers :=
              Some [mk_layer ''background'', with_visibility ''road-major'' False,
                    with_visibility ''label-city'' False]\<rparr>)),
            editable := Some 1\<rparr>) \<and>
   derived_current model_env light_state
     (light_state\<lparr>visibleLayerGroups := [(''road'', False)],
            bottomMapStyle := Some (Immutable (light_doc\<lparr>layers :=
              Some [mk_layer ''background'', with_visibility ''road-major'' False,
                    with_visibility ''label-city'' False]\<rparr>)),
            editable := Some 1\<rparr>) \<and>
   map_of (mapStyles light_state) (prop_key (Some ''light'')) =
     Some (preset ''light'' (Some light_doc)) \<and>
   mapStyleChangeUpdater model_env light_state (Some ''light'') =
     Inr (light_state\<lparr>visibleLayerGroups := [(''label'', True), (''road'', True), (''water'', True)],
            bottomMapStyle := Some (Immutable (light_doc\<lparr>layers :=
              Some [mk_layer ''background'', with_visibility ''road-major'' True,
                    with_visibility ''label-city'' True]\<rparr>)),
            editable := Some 3\<rparr>) \<and>
   derived_current model_env light_state
     (light_state\<lparr>visibleLayerGroups := [(''label'', True), (''road'', True), (''water'', True)],
            bottomMapStyle := Some (Immutable (light_doc\<lparr>layers :=
              Some [mk_layer ''background'', with_visibility ''road-major'' True,
                    with_visibility ''label-city'' True]\<rparr>)),
            editable := Some 3\<rparr>)"
proof -
  have a: "map_of (mapStyles light_state) (prop_key (Some ''light'')) =
     Some (preset ''light'' (Some light_doc))"
    by (simp add: light_state_def prop_key_def)
  from a light_roads_off light_reselected
    derived_fields_recomputed [of model_env light_state roads_off "Some ''light''"]
  show ?thesis by blast
qed

text \<open>
  Claim C3 as stated covers the case of an active style that is not loaded. After the
  dark style is selected in the example, recomputing gives no output, and the state still
  holds the bottom style and the building colour of the light style.
\<close>

theorem derived_fields_recomputed_counterexample:
  "map_of (mapStyles light_state) (prop_key (styleType light_state)) =
     Some (preset ''light'' (Some light_doc)) \<and>
   bottomMapStyle light_state = Some (Immutable light_doc) \<and>
   mapStyleChangeUpdater model_env light_state (Some ''dark'') = Inr dark_pending_state \<and>
   styleType dark_pending_state = Some ''dark'' \<and>
   getMapStyles model_env dark_pending_state = Inr None \<and>
   bottomMapStyle dark_pending_state = Some (Immutable light_doc) \<and>
   threeDBuildingColor dark_pending_state = threeDBuildingColor light_state \<and>
   threeDBuildingColor dark_pending_state \<noteq> None"
  by (simp add: mapStyleChangeUpdater_def getMapStyles_def assign_derived_def Let_def
      Object_keys_def read_defs model_defs example_defs dark_pending_state_def)

section \<open>Committing a custom style\<close>

lemma mapStyleChangeUpdater_present:
  assumes "read_style (mapStyles s) (prop_key t) = Some entry"
    and "style entry = None \<or> def_id entry \<noteq> None"
  shows "\<exists>d. getMapStyles e (s\<lparr>styleType := t,
                visibleLayerGroups :=
                  mergeLayerGroupVisibility e (getDefaultLayerGroupVisibility e entry)
                    (visibleLayerGroups s)\<rparr>) = Inr d \<and>
     mapStyleChangeUpdater e s t =
       Inr (assign_derived (s\<lparr>styleType := t,
                visibleLayerGroups :=
                  mergeLayerGroupVisibility e (getDefaultLayerGroupVisibility e entry)
                    (visibleLayerGroups s)\<rparr>) d)"
  using assms
  by (auto simp: mapStyleChangeUpdater_def getMapStyles_def get3DBuildingColor_def Let_def
      split: option.splits)

lemma assign_derived_canonical:
  "mapStyles (assign_derived s d) = mapStyles s"
  "styleType (assign_derived s d) = styleType s"
  "inputStyle (assign_derived s d) = inputStyle s"
  "visibleLayerGroups (assign_derived s d) = visibleLayerGroups s"
  "topLayerGroups (assign_derived s d) = topLayerGroups s"
  "mapboxApiAccessToken (assign_derived s d) = mapboxApiAccessToken s"
  by (cases d; simp add: assign_derived_def)+

text \<open>
  Claim C4. When the staged \<open>inputStyle\<close> has an id, \<open>addCustomMapStyleUpdater\<close>
  returns a state in which \<open>mapStyles\<close> holds the previous \<open>inputStyle\<close> under that id,
  \<open>styleType\<close> is that id, and \<open>inputStyle\<close> is the blank one of
  \<open>getInitialInputStyle\<close>: no id, no style, no url, not valid, custom.
\<close>

theorem addCustomMapStyleUpdater_commit:
  assumes "def_id (inputStyle s) = Some i"
  shows "\<exists>s'. addCustomMapStyleUpdater e s = Inr s' \<and>
     map_of (mapStyles s') i = Some (inputStyle s) \<and>
     styleType s' = Some i \<and>
     inputStyle s' = getInitialInputStyle \<and>
     def_id (inputStyle s') = None \<and> style (inputStyle s') = None \<and>
     url (inputStyle s') = None \<and> isValid (inputStyle s') = Some False \<and>
     custom (inputStyle s') = Some True"
proof -
  let ?n = "s\<lparr>mapStyles := set_prop i (inputStyle s) (mapStyles s),
               inputStyle := getInitialInputStyle\<rparr>"
  have look: "read_style (mapStyles ?n) (prop_key (Some i)) = Some (inputStyle s)"
    by (simp add: read_style_own map_of_set_prop prop_key_def)
  have "style (inputStyle s) = None \<or> def_id (inputStyle s) \<noteq> None"
    using assms by simp
  from mapStyleChangeUpdater_present [OF look this, of e]
  obtain d where "mapStyleChangeUpdater e ?n (Some i) =
       Inr (assign_derived (?n\<lparr>styleType := Some i,
                visibleLayerGroups :=
                  mergeLayerGroupVisibility e (getDefaultLayerGroupVisibility e (inputStyle s))
                    (visibleLayerGroups ?n)\<rparr>) d)"
    by blast
  then show ?thesis
    using assms
    by (simp add: addCustomMapStyleUpdater_def Let_def prop_key_def assign_derived_canonical
        map_of_set_prop getInitialInputStyle_def)
qed

theorem addCustomMapStyleUpdater_commit_witness:
  "def_id (inputStyle input_state) = Some ''custom_style_1'' \<and>
   (\<exists>s'. addCustomMapStyleUpdater model_env input_state = Inr s' \<and>
     map_of (mapStyles s') ''custom_style_1'' = Some (inputStyle input_state) \<and>
     styleType s' = Some ''custom_style_1'' \<and>
     inputStyle s' = getInitialInputStyle \<and>
     def_id (inputStyle s') = None \<and> style (inputStyle s') = None \<and>
     url (inputStyle s') = None \<and> isValid (inputStyle s') = Some False \<and>
     custom (inputStyle s') = Some True)"
proof -
  have a: "def_id (inputStyle input_state) = Some ''custom_style_1''"
    by (simp add: input_state_def custom_style_1_def)
  from a addCustomMapStyleUpdater_commit [OF a, of model_env] show ?thesis by blast
qed

section \<open>The bottom style of a map that is not customized\<close>




section \<open>Loaded styles\<close>

lemma in_Object_keys: "k \<in> set (Object_keys ob) \<longleftrightarrow> map_of ob k \<noteq> None"
  by (simp add: Object_keys_def map_of_eq_None_iff)

text \<open>
  Claim C5, as the code has it. \<open>loadMapStylesUpdater\<close> writes every entry of the payload
  into \<open>mapStyles\<close> and keeps the entries of the other ids; when the read
  \<^verbatim>\<open>newStyles[state.styleType]\<close> finds a value, an entry of the payload or a member that
  the payload inherits from \<open>Object.prototype\<close>, it goes on with \<open>mapStyleChangeUpdater\<close>
  for the active \<open>styleType\<close>, and returns the merged state otherwise. When the payload
  has an entry for the active \<open>styleType\<close> that carries its document and an id, the new
  \<open>visibleLayerGroups\<close> is the default visibility of the entry merged with the one of the
  state, and \<open>bottomMapStyle\<close> is the document edited as the bottom map with that merged
  visibility (\<open>Immutable.fromJS\<close> of the document when the merged visibility is empty).
\<close>

theorem loadMapStylesUpdater_merge:
  "(\<forall>k. map_of (spread (mapStyles s) newStyles) k =
          (case map_of newStyles k of None \<Rightarrow> map_of (mapStyles s) k | Some d \<Rightarrow> Some d)) \<and>
   loadMapStylesUpdater e s newStyles =
     (if prop_key (styleType s) \<in> set (Object_keys newStyles) \<or> inherited (prop_key (styleType s))
      then mapStyleChangeUpdater e (s\<lparr>mapStyles := spread (mapStyles s) newStyles\<rparr>) (styleType s)
      else Inr (s\<lparr>mapStyles := spread (mapStyles s) newStyles\<rparr>)) \<and>
   (\<forall>d doc i.
      map_of newStyles (prop_key (styleType s)) = Some d \<and> style d = Some doc \<and>
      def_id d = Some i \<longrightarrow>
      (\<exists>s'. loadMapStylesUpdater e s newStyles = Inr s' \<and>
         mapStyles s' = spread (mapStyles s) newStyles \<and>
         styleType s' = styleType s \<and>
         visibleLayerGroups s' =
           mergeLayerGroupVisibility e (getDefaultLayerGroupVisibility e d) (visibleLayerGroups s) \<and>
         bottomMapStyle s' =
           Some (if visibleLayerGroups s' = [] then fromJS doc
                 else editBottomMapStyle e (styleType s) d (visibleLayerGroups s'))))"
proof (intro conjI allI impI)
  fix k
  show "map_of (spread (mapStyles s) newStyles) k =
          (case map_of newStyles k of None \<Rightarrow> map_of (mapStyles s) k | Some d \<Rightarrow> Some d)"
    by (rule map_of_spread)
next
  show "loadMapStylesUpdater e s newStyles =
     (if prop_key (styleType s) \<in> set (Object_keys newStyles) \<or> inherited (prop_key (styleType s))
      then mapStyleChangeUpdater e (s\<lparr>mapStyles := spread (mapStyles s) newStyles\<rparr>) (styleType s)
      else Inr (s\<lparr>mapStyles := spread (mapStyles s) newStyles\<rparr>))"
    by (auto simp: loadMapStylesUpdater_def in_Object_keys read_style_None Let_def)
next
  fix d doc i
  let ?n = "s\<lparr>mapStyles := spread (mapStyles s) newStyles\<rparr>"
  let ?v = "mergeLayerGroupVisibility e (getDefaultLayerGroupVisibility e d) (visibleLayerGroups s)"
  let ?m = "?n\<lparr>styleType := styleType s, visibleLayerGroups := ?v\<rparr>"
  assume h: "map_of newStyles (prop_key (styleType s)) = Some d \<and> style d = Some doc \<and>
      def_id d = Some i"
  then have look: "read_style (mapStyles ?n) (prop_key (styleType s)) = Some d"
    by (simp add: read_style_own map_of_spread)
  have look': "read_style (mapStyles ?m) (prop_key (styleType ?m)) = Some d"
    using look by simp
  from h getMapStyles_resolved [OF look', of doc i e]
  obtain c where g: "getMapStyles e ?m =
       Inr (Some \<lparr>d_bottomMapStyle =
                    (if ?v = [] then fromJS doc else editBottomMapStyle e (styleType s) d ?v),
                  d_topMapStyle =
                    (if ?v \<noteq> [] \<and> (\<exists>g. map_of (topLayerGroups s) g = Some True)
                     then Some (editTopMapStyle e (styleType s) d (topLayers (topLayerGroups s) ?v))
                     else None),
                  d_editable = length ?v,
                  d_threeDBuildingColor = c\<rparr>)"
    by auto
  have "loadMapStylesUpdater e s newStyles = mapStyleChangeUpdater e ?n (styleType s)"
    using h by (simp add: loadMapStylesUpdater_def read_style_own Let_def)
  also have "\<dots> = Inr (assign_derived ?m (Some \<lparr>d_bottomMapStyle =
                    (if ?v = [] then fromJS doc else editBottomMapStyle e (styleType s) d ?v),
                  d_topMapStyle =
                    (if ?v \<noteq> [] \<and> (\<exists>g. map_of (topLayerGroups s) g = Some True)
                     then Some (editTopMapStyle e (styleType s) d (topLayers (topLayerGroups s) ?v))
                     else None),
                  d_editable = length ?v,
                  d_threeDBuildingColor = c\<rparr>))"
    using look g by (simp add: mapStyleChangeUpdater_def Let_def)
  finally show "\<exists>s'. loadMapStylesUpdater e s newStyles = Inr s' \<and>
         mapStyles s' = spread (mapStyles s) newStyles \<and>
         styleType s' = styleType s \<and>
         visibleLayerGroups s' = ?v \<and>
         bottomMapStyle s' =
           Some (if visibleLayerGroups s' = [] then fromJS doc
                 else editBottomMapStyle e (styleType s) d (visibleLayerGroups s'))"
    by (simp add: assign_derived_def)
qed

theorem loadMapStylesUpdater_merge_witness:
  "map_of [(''dark'', preset ''dark'' (Some dark_doc))] (prop_key (styleType label_off_state)) =
     Some (preset ''dark'' (Some dark_doc)) \<and>
   style (preset ''dark'' (Some dark_doc)) = Some dark_doc \<and>
   def_id (preset ''dark'' (Some dark_doc)) = Some ''dark'' \<and>
   (\<exists>s'. loadMapStylesUpdater model_env label_off_state [(''dark'', preset ''dark'' (Some dark_doc))]
            = Inr s' \<and>
      mapStyles s' =
        spread (mapStyles label_off_state) [(''dark'', preset ''dark'' (Some dark_doc))] \<and>
      styleType s' = styleType label_off_state \<and>
      visibleLayerGroups s' =
        mergeLayerGroupVisibility model_env
          (getDefaultLayerGroupVisibility model_env (preset ''dark'' (Some dark_doc)))
          (visibleLayerGroups label_off_state) \<and>
      bottomMapStyle s' =
        Some (if visibleLayerGroups s' = [] then fromJS dark_doc
              else editBottomMapStyle model_env (styleType label_off_state)
                     (preset ''dark'' (Some dark_doc)) (visibleLayerGroups s')))"
proof -
  have a: "map_of [(''dark'', preset ''dark'' (Some dark_doc))]
      (prop_key (styleType label_off_state)) = Some (preset ''dark'' (Some dark_doc))"
    by (simp add: label_off_state_def prop_key_def)
  have b: "style (preset ''dark'' (Some dark_doc)) = Some dark_doc"
    by (simp add: preset_def)
  have c: "def_id (preset ''dark'' (Some dark_doc)) = Some ''dark''"
    by (simp add: preset_def)
  from a b c
    loadMapStylesUpdater_merge [of label_off_state "[(''dark'', preset ''dark'' (Some dark_doc))]"
      model_env]
  show ?thesis by blast
qed

text \<open>
  Claim C5 as stated has the document edited with the default visibility of the style. In
  the example the labels were switched off before the dark style arrived: the default
  visibility shows them, the bottom style that the updater stores hides them.
\<close>

theorem loadMapStylesUpdater_merge_counterexample:
  "styleType label_off_state = Some ''dark'' \<and>
   visibleLayerGroups label_off_state = [(''label'', False)] \<and>
   getDefaultLayerGroupVisibility model_env (preset ''dark'' (Some dark_doc)) =
     [(''label'', True), (''road'', True), (''water'', True)] \<and>
   map_sum id visibleLayerGroups
     (loadMapStylesUpdater model_env label_off_state [(''dark'', preset ''dark'' (Some dark_doc))]) =
     Inr [(''label'', False), (''road'', True), (''water'', True)] \<and>
   map_sum id bottomMapStyle
     (loadMapStylesUpdater model_env label_off_state [(''dark'', preset ''dark'' (Some dark_doc))]) =
     Inr (Some (Immutable (dark_doc\<lparr>layers :=
       Some [with_visibility ''road-major'' True, with_visibility ''label-city'' False]\<rparr>))) \<and>
   editBottomMapStyle model_env (Some ''dark'') (preset ''dark'' (Some dark_doc))
     (getDefaultLayerGroupVisibility model_env (preset ''dark'' (Some dark_doc))) =
     Immutable (dark_doc\<lparr>layers :=
       Some [with_visibility ''road-major'' True, with_visibility ''label-city'' True]\<rparr>) \<and>
   map_sum id bottomMapStyle
     (loadMapStylesUpdater model_env label_off_state [(''dark'', preset ''dark'' (Some dark_doc))]) \<noteq>
     Inr (Some (editBottomMapStyle model_env (Some ''dark'') (preset ''dark'' (Some dark_doc))
       (getDefaultLayerGroupVisibility model_env (preset ''dark'' (Some dark_doc)))))"
  by (simp add: loadMapStylesUpdater_def spread_def mapStyleChangeUpdater_def getMapStyles_def
      get3DBuildingColor_def hasTopLayer_def assign_derived_def buildingColor_def
      backgroundLayer_def DEFAULT_BLDG_COLOR_def
      Object_values_def Object_keys_def read_defs Let_def model_defs example_defs
      label_off_state_def)

section \<open>Receiving a saved config\<close>

text \<open>
  Claim C6, as the code has it. Without \<open>mapStyle\<close> in the payload,
  \<open>receiveMapConfigUpdater\<close> returns the state as it is, with no task. With a saved
  \<open>mapStyles\<close>, it attaches one download request for every entry of it, in the order of
  the entries, whether the entry has its \<open>style\<close> or not; the url of a request is made
  from the url of the entry and the access token of the entry when that is a non-empty
  string, the \<open>mapboxApiAccessToken\<close> of the state otherwise. Without a saved
  \<open>mapStyles\<close> no task is attached. The returned state is the one of
  \<open>mapConfigChangeUpdater\<close>.
\<close>

theorem receiveMapConfigUpdater_tasks:
  "receiveMapConfigUpdater e s None = Inr (s, None) \<and>
   (\<forall>cfg ms s'.
      cfg_mapStyles cfg = Some ms \<and> mapConfigChangeUpdater e s cfg = Inr s' \<longrightarrow>
      receiveMapConfigUpdater e s (Some cfg) =
        Inr (s', Some (map (\<lambda>d. \<lparr>req_id = def_id d,
                                 req_url = getStyleDownloadUrl e (url d)
                                   (if truthy (accessToken d) then accessToken d
                                    else mapboxApiAccessToken s)\<rparr>)
                        (Object_values ms)))) \<and>
   (\<forall>cfg s'.
      cfg_mapStyles cfg = None \<and> mapConfigChangeUpdater e s cfg = Inr s' \<longrightarrow>
      receiveMapConfigUpdater e s (Some cfg) = Inr (s', None))"
  by (auto simp: receiveMapConfigUpdater_def load_request_of_def js_or_def Let_def fun_eq_iff)

text \<open>The saved config of the example, received in the example state.\<close>

lemma light_saved_config:
  "mapConfigChangeUpdater model_env light_state saved_config =
     Inr (light_state\<lparr>mapStyles := [(''light'', preset ''light'' (Some light_doc)),
                            (''custom_style_1'', custom_style_1\<lparr>style := None\<rparr>)]\<rparr>)"
  by (simp add: mapConfigChangeUpdater_def assign_config_def getMapStyles_def
      get3DBuildingColor_def hasTopLayer_def assign_derived_def buildingColor_def
      backgroundLayer_def DEFAULT_BLDG_COLOR_def fromJS_def
      Object_values_def Object_keys_def read_defs Let_def model_defs example_defs
      saved_config_def custom_style_1_def)

theorem receiveMapConfigUpdater_tasks_witness:
  "receiveMapConfigUpdater model_env light_state None = Inr (light_state, None) \<and>
   cfg_mapStyles saved_config =
     Some [(''light'', preset ''light'' (Some light_doc)),
           (''custom_style_1'', custom_style_1\<lparr>style := None\<rparr>)] \<and>
   mapConfigChangeUpdater model_env light_state saved_config =
     Inr (light_state\<lparr>mapStyles := [(''light'', preset ''light'' (Some light_doc)),
                            (''custom_style_1'', custom_style_1\<lparr>style := None\<rparr>)]\<rparr>) \<and>
   receiveMapConfigUpdater model_env light_state (Some saved_config) =
     Inr (light_state\<lparr>mapStyles := [(''light'', preset ''light'' (Some light_doc)),
                            (''custom_style_1'', custom_style_1\<lparr>style := None\<rparr>)]\<rparr>,
          Some (map (\<lambda>d. \<lparr>req_id = def_id d,
                           req_url = getStyleDownloadUrl model_env (url d)
                             (if truthy (accessToken d) then accessToken d
                              else mapboxApiAccessToken light_state)\<rparr>)
                  (Object_values [(''light'', preset ''light'' (Some light_doc)),
                                  (''custom_style_1'', custom_style_1\<lparr>style := None\<rparr>)])))"
proof -
  have a: "cfg_mapStyles saved_config =
     Some [(''light'', preset ''light'' (Some light_doc)),
           (''custom_style_1'', custom_style_1\<lparr>style := None\<rparr>)]"
    by (simp add: saved_config_def)
  from a light_saved_config receiveMapConfigUpdater_tasks [of model_env light_state]
  show ?thesis by blast
qed

text \<open>
  Claim C6 as stated has downloads only for the entries without a \<open>style\<close>. The saved
  config of the example holds the light style with its document, and a request for it is
  attached next to the one for the custom style.
\<close>

theorem receiveMapConfigUpdater_tasks_counterexample:
  "cfg_mapStyles saved_config =
     Some [(''light'', preset ''light'' (Some light_doc)),
           (''custom_style_1'', custom_style_1\<lparr>style := None\<rparr>)] \<and>
   style (preset ''light'' (Some light_doc)) = Some light_doc \<and>
   map_sum id snd (receiveMapConfigUpdater model_env light_state (Some saved_config)) =
     Inr (Some [\<lparr>req_id = Some ''light'',
                 req_url = ''mapbox://styles/light?access_token=pk.default''\<rparr>,
                \<lparr>req_id = Some ''custom_style_1'',
                 req_url = ''mapbox://styles/me/custom?access_token=pk.mine''\<rparr>])"
  by (simp add: receiveMapConfigUpdater_def load_request_of_def js_or_def truthy_def
      mapConfigChangeUpdater_def assign_config_def getMapStyles_def
      get3DBuildingColor_def hasTopLayer_def assign_derived_def buildingColor_def
      backgroundLayer_def DEFAULT_BLDG_COLOR_def fromJS_def
      Object_values_def Object_keys_def read_defs Let_def model_defs example_defs
      saved_config_def custom_style_1_def)

section \<open>Classifying a document without layers\<close>

text \<open>
  \<open>getLayerGroupsFromStyle\<close> reads \<open>style.layers.filter\<close> for every layer group: with
  a layer group to test and no \<open>layers\<close> in the document, the read throws. An empty
  \<open>layers\<close> gives no group.
\<close>

lemma getLayerGroupsFromStyle_missing_layers:
  "DEFAULT_LAYER_GROUPS e \<noteq> [] \<Longrightarrow> layers doc = None \<Longrightarrow>
     getLayerGroupsFromStyle e doc = Inl TypeError"
  by (simp add: getLayerGroupsFromStyle_def split: list.splits)

lemma getLayerGroupsFromStyle_no_layer: "layers doc = Some [] \<Longrightarrow> getLayerGroupsFromStyle e doc = Inr []"
  by (simp add: getLayerGroupsFromStyle_def split: list.splits)

text \<open>
  Claim C10 asks for no group and no error when \<open>layers\<close> is missing. On a document
  without \<open>layers\<close> the classifier throws a \<open>TypeError\<close>, and so do both places that
  call it: \<open>loadCustomMapStyleUpdater\<close> and the success branch of the download task of
  \<open>receiveMapConfigUpdater\<close>. With an empty \<open>layers\<close> it returns no group. The lookup
  of the background layer in \<open>get3DBuildingColor\<close>, which reads
  \<^verbatim>\<open>(style.style.layers || [])\<close>, finds no layer in the same document and does not throw.
\<close>

theorem getLayerGroupsFromStyle_missing_layers_throws:
  "layers no_layers_doc = None \<and>
   getLayerGroupsFromStyle model_env no_layers_doc = Inl TypeError \<and>
   loadCustomMapStyleUpdater model_env light_state
     \<lparr>p_icon = None, p_style = Some no_layers_doc, p_error = None\<rparr> = Inl TypeError \<and>
   loadMapStyleTasks_success model_env []
     [\<lparr>res_id = Some ''broken'', res_style = no_layers_doc\<rparr>] [] = Inl TypeError \<and>
   getLayerGroupsFromStyle model_env (no_layers_doc\<lparr>layers := Some []\<rparr>) = Inr [] \<and>
   backgroundLayer no_layers_doc = None"
  by (simp add: getLayerGroupsFromStyle_def loadCustomMapStyleUpdater_def backgroundLayer_def
      no_layers_doc_def model_env_def model_layer_groups_def)

section \<open>The colour of the buildings\<close>

text \<open>The lookahead succeeds somewhere exactly when one of the alternatives is a substring.\<close>

lemma lookahead_match_sublist:
  "lookahead_match alts s \<longleftrightarrow> (\<exists>a \<in> set alts. sublist a s)"
  by (induction s) (auto simp: list_ex_iff sublist_Cons_right)

text \<open>\<open>find\<close> returns the first layer of id \<^verbatim>\<open>background\<close>.\<close>

lemma find_background:
  "find (\<lambda>l. layer_id l = ''background'') ls = Some l \<longleftrightarrow>
     (\<exists>pre post. ls = pre @ l # post \<and> layer_id l = ''background'' \<and>
        (\<forall>x \<in> set pre. layer_id x \<noteq> ''background''))"
proof (induction ls)
  case Nil
  then show ?case by simp
next
  case (Cons a ls)
  show ?case
  proof (cases "layer_id a = ''background''")
    case True
    have "(\<exists>pre post. a # ls = pre @ l # post \<and> layer_id l = ''background'' \<and>
        (\<forall>x \<in> set pre. layer_id x \<noteq> ''background'')) \<longleftrightarrow> a = l"
    proof
      assume "\<exists>pre post. a # ls = pre @ l # post \<and> layer_id l = ''background'' \<and>
        (\<forall>x \<in> set pre. layer_id x \<noteq> ''background'')"
      then obtain pre post where p: "a # ls = pre @ l # post"
        "\<forall>x \<in> set pre. layer_id x \<noteq> ''background''" by blast
      show "a = l"
      proof (cases pre)
        case Nil
        with p show ?thesis by simp
      next
        case (Cons b pre')
        with p True show ?thesis by auto
      qed
    next
      assume "a = l"
      with True have "a # ls = [] @ l # ls \<and> layer_id l = ''background'' \<and>
        (\<forall>x \<in> set []. layer_id x \<noteq> ''background'')" by simp
      then show "\<exists>pre post. a # ls = pre @ l # post \<and> layer_id l = ''background'' \<and>
        (\<forall>x \<in> set pre. layer_id x \<noteq> ''background'')" by blast
    qed
    with True show ?thesis by simp
  next
    case False
    have "(\<exists>pre post. a # ls = pre @ l # post \<and> layer_id l = ''background'' \<and>
        (\<forall>x \<in> set pre. layer_id x \<noteq> ''background'')) \<longleftrightarrow>
       (\<exists>pre post. ls = pre @ l # post \<and> layer_id l = ''background'' \<and>
        (\<forall>x \<in> set pre. layer_id x \<noteq> ''background''))"
    proof
      assume "\<exists>pre post. a # ls = pre @ l # post \<and> layer_id l = ''background'' \<and>
        (\<forall>x \<in> set pre. layer_id x \<noteq> ''background'')"
      then obtain pre post where p: "a # ls = pre @ l # post" "layer_id l = ''background''"
        "\<forall>x \<in> set pre. layer_id x \<noteq> ''background''" by blast
      show "\<exists>pre post. ls = pre @ l # post \<and> layer_id l = ''background'' \<and>
        (\<forall>x \<in> set pre. layer_id x \<noteq> ''background'')"
      proof (cases pre)
        case Nil
        with p False show ?thesis by simp
      next
        case (Cons b pre')
        with p have "ls = pre' @ l # post \<and> layer_id l = ''background'' \<and>
          (\<forall>x \<in> set pre'. layer_id x \<noteq> ''background'')" by simp
        then show ?thesis by blast
      qed
    next
      assume "\<exists>pre post. ls = pre @ l # post \<and> layer_id l = ''background'' \<and>
        (\<forall>x \<in> set pre. layer_id x \<noteq> ''background'')"
      then obtain pre post where p: "ls = pre @ l # post" "layer_id l = ''background''"
        "\<forall>x \<in> set pre. layer_id x \<noteq> ''background''" by blast
      with False have "a # ls = (a # pre) @ l # post \<and> layer_id l = ''background'' \<and>
          (\<forall>x \<in> set (a # pre). layer_id x \<noteq> ''background'')" by simp
      then show "\<exists>pre post. a # ls = pre @ l # post \<and> layer_id l = ''background'' \<and>
        (\<forall>x \<in> set pre. layer_id x \<noteq> ''background'')" by blast
    qed
    with False Cons.IH show ?thesis by simp
  qed
qed

lemma find_background_None:
  "find (\<lambda>l. layer_id l = ''background'') ls = None \<longleftrightarrow>
     (\<forall>x \<in> set ls. layer_id x \<noteq> ''background'')"
  by (auto simp: find_None_iff)


text \<open>
  Claim C8. For a loaded style definition with an id, \<open>get3DBuildingColor\<close> returns the
  three channels of \<^verbatim>\<open>rgb(buildingColor).brighter([0.2])\<close> when the id contains \<^verbatim>\<open>dark\<close>
  or \<^verbatim>\<open>night\<close> as a substring, of \<^verbatim>\<open>rgb(buildingColor).darker([0.2])\<close> otherwise. The
  background layer is the first layer whose id is \<^verbatim>\<open>background\<close>; \<open>buildingColor\<close> is
  its paint property \<^verbatim>\<open>background-color\<close> when the layer, its paint and a non-empty
  value of the property exist, and \<^verbatim>\<open>#D1CEC7\<close> in every other case.
\<close>

theorem get3DBuildingColor_spec:
  assumes "style sd = Some doc" and "def_id sd = Some i"
  shows "get3DBuildingColor e sd =
       Inr (let c = (if sublist ''dark'' i \<or> sublist ''night'' i
                     then brighter e [0.2] (rgb e (buildingColor doc))
                     else darker e [0.2] (rgb e (buildingColor doc)))
            in [rgb_r c, rgb_g c, rgb_b c]) \<and>
     (\<forall>l. backgroundLayer doc = Some l \<longleftrightarrow>
        (\<exists>ls pre post. layers doc = Some ls \<and> ls = pre @ l # post \<and>
           layer_id l = ''background'' \<and> (\<forall>x \<in> set pre. layer_id x \<noteq> ''background''))) \<and>
     (\<forall>l p c. backgroundLayer doc = Some l \<and> paint l = Some p \<and>
        map_of p ''background-color'' = Some c \<and> c \<noteq> [] \<longrightarrow> buildingColor doc = c) \<and>
     (\<forall>l. backgroundLayer doc = Some l \<and>
        (paint l = None \<or>
         (\<exists>p. paint l = Some p \<and>
            (map_of p ''background-color'' = None \<or> map_of p ''background-color'' = Some [])))
        \<longrightarrow> buildingColor doc = ''#D1CEC7'') \<and>
     (backgroundLayer doc = None \<longrightarrow> buildingColor doc = ''#D1CEC7'')"
proof (intro conjI allI impI)
  show "get3DBuildingColor e sd =
       Inr (let c = (if sublist ''dark'' i \<or> sublist ''night'' i
                     then brighter e [0.2] (rgb e (buildingColor doc))
                     else darker e [0.2] (rgb e (buildingColor doc)))
            in [rgb_r c, rgb_g c, rgb_b c])"
    using assms by (simp add: get3DBuildingColor_def lookahead_match_sublist Let_def)
next
  fix l
  show "backgroundLayer doc = Some l \<longleftrightarrow>
        (\<exists>ls pre post. layers doc = Some ls \<and> ls = pre @ l # post \<and>
           layer_id l = ''background'' \<and> (\<forall>x \<in> set pre. layer_id x \<noteq> ''background''))"
    by (cases "layers doc") (simp_all add: backgroundLayer_def find_background)
next
  fix l p c
  assume "backgroundLayer doc = Some l \<and> paint l = Some p \<and>
        map_of p ''background-color'' = Some c \<and> c \<noteq> []"
  then show "buildingColor doc = c" by (simp add: buildingColor_def)
next
  fix l
  assume "backgroundLayer doc = Some l \<and>
        (paint l = None \<or>
         (\<exists>p. paint l = Some p \<and>
            (map_of p ''background-color'' = None \<or> map_of p ''background-color'' = Some [])))"
  then show "buildingColor doc = ''#D1CEC7''"
    by (auto simp: buildingColor_def DEFAULT_BLDG_COLOR_def)
next
  assume "backgroundLayer doc = None"
  then show "buildingColor doc = ''#D1CEC7''"
    by (simp add: buildingColor_def DEFAULT_BLDG_COLOR_def)
qed

theorem get3DBuildingColor_spec_witness:
  "style night_def = Some night_doc \<and> def_id night_def = Some ''tonight-1'' \<and>
   sublist ''night'' ''tonight-1'' \<and>
   backgroundLayer night_doc = Some (background_layer ''#101820'') \<and>
   buildingColor night_doc = ''#101820'' \<and>
   get3DBuildingColor model_env night_def =
     Inr (let c = brighter model_env [0.2] (rgb model_env ''#101820'')
          in [rgb_r c, rgb_g c, rgb_b c])"
proof -
  note th = get3DBuildingColor_spec [of night_def night_doc "''tonight-1''" model_env]
  have a: "style night_def = Some night_doc"
    by (simp add: night_def_def preset_def)
  have b: "def_id night_def = Some ''tonight-1''"
    by (simp add: night_def_def preset_def)
  have n: "sublist ''night'' ''tonight-1''"
    by code_simp
  have l: "backgroundLayer night_doc = Some (background_layer ''#101820'')"
    by (simp add: backgroundLayer_def night_doc_def mk_layer_def background_layer_def)
  have p: "paint (background_layer ''#101820'') = Some [(''background-color'', ''#101820'')]"
    "map_of [(''background-color'', ''#101820'')] ''background-color'' = Some ''#101820''"
    "''#101820'' \<noteq> []"
    by (simp_all add: background_layer_def)
  from th [OF a b] l p have c: "buildingColor night_doc = ''#101820''"
    by blast
  from th [OF a b] have "get3DBuildingColor model_env night_def =
       Inr (let c = (if sublist ''dark'' ''tonight-1'' \<or> sublist ''night'' ''tonight-1''
                     then brighter model_env [0.2] (rgb model_env (buildingColor night_doc))
                     else darker model_env [0.2] (rgb model_env (buildingColor night_doc)))
            in [rgb_r c, rgb_g c, rgb_b c])"
    by blast
  with n c have "get3DBuildingColor model_env night_def =
     Inr (let c = brighter model_env [0.2] (rgb model_env ''#101820'')
          in [rgb_r c, rgb_g c, rgb_b c])"
    by simp
  with a b n l c show ?thesis by blast
qed

section \<open>The channels of the building colour\<close>

text \<open>
  Claim C9, as the code has it. Whenever \<open>get3DBuildingColor\<close> returns, the style is
  loaded and has an id, and the result is the list of the three channels \<open>r\<close>, \<open>g\<close>,
  \<open>b\<close> of the object that the colour library returns for
  \<^verbatim>\<open>rgb(buildingColor).brighter([0.2])\<close> or \<^verbatim>\<open>rgb(buildingColor).darker([0.2])\<close>, as
  they are: the function does not round them and does not clamp them.
\<close>

theorem get3DBuildingColor_channels:
  "get3DBuildingColor e sd = Inr cs \<longrightarrow>
     (\<exists>doc i c. style sd = Some doc \<and> def_id sd = Some i \<and>
        (c = brighter e [0.2] (rgb e (buildingColor doc)) \<or>
         c = darker e [0.2] (rgb e (buildingColor doc))) \<and>
        cs = [rgb_r c, rgb_g c, rgb_b c])"
  by (auto simp: get3DBuildingColor_def Let_def split: option.splits if_splits)

theorem get3DBuildingColor_channels_witness:
  "get3DBuildingColor model_env night_def =
     Inr [rgb_r (brighter model_env [0.2] (rgb model_env ''#101820'')),
          rgb_g (brighter model_env [0.2] (rgb model_env ''#101820'')),
          rgb_b (brighter model_env [0.2] (rgb model_env ''#101820''))] \<and>
   (\<exists>doc i c. style night_def = Some doc \<and> def_id night_def = Some i \<and>
      (c = brighter model_env [0.2] (rgb model_env (buildingColor doc)) \<or>
       c = darker model_env [0.2] (rgb model_env (buildingColor doc))) \<and>
      [rgb_r (brighter model_env [0.2] (rgb model_env ''#101820'')),
       rgb_g (brighter model_env [0.2] (rgb model_env ''#101820'')),
       rgb_b (brighter model_env [0.2] (rgb model_env ''#101820''))] =
        [rgb_r c, rgb_g c, rgb_b c])"
proof -
  have a: "get3DBuildingColor model_env night_def =
     Inr [rgb_r (brighter model_env [0.2] (rgb model_env ''#101820'')),
          rgb_g (brighter model_env [0.2] (rgb model_env ''#101820'')),
          rgb_b (brighter model_env [0.2] (rgb model_env ''#101820''))]"
    by (simp add: get3DBuildingColor_def buildingColor_def backgroundLayer_def Let_def
        night_def_def night_doc_def background_layer_def mk_layer_def preset_def)
  from a get3DBuildingColor_channels [of model_env night_def
      "[rgb_r (brighter model_env [0.2] (rgb model_env ''#101820'')),
        rgb_g (brighter model_env [0.2] (rgb model_env ''#101820'')),
        rgb_b (brighter model_env [0.2] (rgb model_env ''#101820''))]"]
  show ?thesis by blast
qed

text \<open>
  Claim C9 as stated has integers between 0 and 255. For a white background and a style
  id with \<^verbatim>\<open>dark\<close> in it, the library multiplies 255 by \<open>1 / 0.7\<close> to the power
  \<open>0.2\<close>, and the function returns the three products, which are above 255.
\<close>

theorem get3DBuildingColor_channels_counterexample:
  "get3DBuildingColor model_env white_dark_def =
     Inr [255 * (10 / 7) powr (1 / 5), 255 * (10 / 7) powr (1 / 5),
          255 * (10 / 7) powr (1 / 5)] \<and>
   (255 :: real) < 255 * (10 / 7) powr (1 / 5)"
proof -
  have "(1 :: real) < (10 / 7) powr (1 / 5)"
    by simp
  then have "(255 :: real) < 255 * (10 / 7) powr (1 / 5)"
    by simp
  moreover have "get3DBuildingColor model_env white_dark_def =
     Inr [255 * (10 / 7) powr (1 / 5), 255 * (10 / 7) powr (1 / 5),
          255 * (10 / 7) powr (1 / 5)]"
    by (simp add: get3DBuildingColor_def buildingColor_def backgroundLayer_def Let_def
        white_dark_def_def background_layer_def preset_def model_defs)
  ultimately show ?thesis by simp
qed

end
